theory Spec2Isabelle
  imports Main
begin

section \<open>Python values of the contract engine (interface.py)\<close>

text \<open>
  The engine compares run-time types for identity (\<^verbatim>\<open>type(input) != self.TYPE\<close>), so the
  model keeps a universe of type objects and of values that carry their type.
  \<open>TClass c\<close> is a plain new-style class named \<open>c\<close>, \<open>TIClass c\<close> a class created by
  the metaclass \<^verbatim>\<open>_Interface\<close>, \<open>TMeta\<close> the metaclass itself. \<open>VInt\<close> stands for a plain
  \<^verbatim>\<open>int\<close>; \<open>VObj t i\<close> is the instance with identity \<open>i\<close> of the class \<open>t\<close>
  (a \<open>TClass\<close> or a \<open>TIClass\<close>).
\<close>

datatype pytype =
  TNoneType | TBool | TInt | TStr | TList | TType | TMeta
  | TClass string | TIClass string

datatype pyval =
  VNone | VBool bool | VInt int | VStr string | VList "pyval list"
  | VObj pytype nat | VType pytype

text \<open>\<^verbatim>\<open>type(v)\<close>.\<close>

fun type_of :: "pyval \<Rightarrow> pytype" where
  "type_of VNone = TNoneType"
| "type_of (VBool b) = TBool"
| "type_of (VInt i) = TInt"
| "type_of (VStr s) = TStr"
| "type_of (VList xs) = TList"
| "type_of (VObj t i) = t"
| "type_of (VType t) = (case t of TIClass c \<Rightarrow> TMeta | _ \<Rightarrow> TType)"

text \<open>
  \<^verbatim>\<open>a == b\<close> as Python evaluates it on these values: \<^verbatim>\<open>bool\<close> is a subclass of
  \<^verbatim>\<open>int\<close> and compares numerically with it, lists compare element by element,
  instances and type objects by identity.
\<close>

fun py_eq :: "pyval \<Rightarrow> pyval \<Rightarrow> bool"
  and py_eq_list :: "pyval list \<Rightarrow> pyval list \<Rightarrow> bool" where
  "py_eq VNone b = (b = VNone)"
| "py_eq (VBool x) b =
     (case b of VBool y \<Rightarrow> x = y | VInt j \<Rightarrow> (if x then 1 else 0) = j | _ \<Rightarrow> False)"
| "py_eq (VInt i) b =
     (case b of VBool y \<Rightarrow> i = (if y then 1 else 0) | VInt j \<Rightarrow> i = j | _ \<Rightarrow> False)"
| "py_eq (VStr s) b = (case b of VStr t \<Rightarrow> s = t | _ \<Rightarrow> False)"
| "py_eq (VList xs) b = (case b of VList ys \<Rightarrow> py_eq_list xs ys | _ \<Rightarrow> False)"
| "py_eq (VObj t i) b = (b = VObj t i)"
| "py_eq (VType t) b = (b = VType t)"
| "py_eq_list [] ys = (ys = [])"
| "py_eq_list (x # xs) ys =
     (case ys of [] \<Rightarrow> False | y # ys' \<Rightarrow> py_eq x y \<and> py_eq_list xs ys')"

text \<open>\<^verbatim>\<open>input in self.OPTIONS\<close> on a tuple.\<close>

fun py_in :: "pyval \<Rightarrow> pyval list \<Rightarrow> bool" where
  "py_in v [] = False"
| "py_in v (x # xs) = (py_eq v x \<or> py_in v xs)"

section \<open>Constraints and errors\<close>

text \<open>
  The three rule classes \<^verbatim>\<open>_IValue\<close>, \<^verbatim>\<open>IList\<close>, \<^verbatim>\<open>IOption\<close>. A declared value
  (\<open>decl\<close>) is what an interface body binds to a name or gives as a parameter default:
  an ordinary value or one of the rule objects.
\<close>

datatype rule = IValue pytype | IList pytype | IOption "pyval list"

datatype decl = DVal pyval | DRule rule

text \<open>
  The \<^verbatim>\<open>required\<close> text of an \<^verbatim>\<open>InterfaceValueError\<close>, one constructor per message
  of the source.
\<close>

datatype required =
  ReqTypeValue                        \<comment> \<open>type value is required.\<close>
  | ReqOneArgList                     \<comment> \<open>one arg for list typ is required.\<close>
  | ReqOptionArgs                     \<comment> \<open>IOption(*args)\<close>
  | ReqType pytype                    \<comment> \<open>T is required\<close>
  | ReqListType                       \<comment> \<open>type of list is required\<close>
  | ReqOneOf "pyval list"             \<comment> \<open>one of OPTIONS\<close>
  | ReqReturnDef                      \<comment> \<open>return type def is wrong\<close>
  | ReqInputError                     \<comment> \<open>input error\<close>
  | ReqOutputError                    \<comment> \<open>output error\<close>
  | ReqMissing string                 \<comment> \<open>MISSING: k() is not defined.\<close>
  | ReqValidArgs string "string list" \<comment> \<open>the valid args for k() should be k(a,b)\<close>
  | ReqReadOnly string                \<comment> \<open>'name' is read-only attribute\<close>
  | ReqNotAvailable string            \<comment> \<open>attribute 'name' is not available\<close>

datatype error =
  InterfaceError
  | InterfaceValueError required
  | InterfaceInputValueError required
  | InterfaceOutputValueError required
  | TypeError | KeyError | ValueError | AttributeError
  | UserError string

text \<open>\<^verbatim>\<open>except InterfaceValueError\<close>: the class and its two subclasses.\<close>

fun is_InterfaceValueError :: "error \<Rightarrow> bool" where
  "is_InterfaceValueError (InterfaceValueError r) = True"
| "is_InterfaceValueError (InterfaceInputValueError r) = True"
| "is_InterfaceValueError (InterfaceOutputValueError r) = True"
| "is_InterfaceValueError e = False"

text \<open>
  \<^verbatim>\<open>_IValue.__init__\<close> (\<open>IValue_TYPE\<close> is its check, giving the type it stores as
  \<^verbatim>\<open>self.TYPE\<close>), \<^verbatim>\<open>IList.__init__\<close> (called with the argument tuple) and
  \<^verbatim>\<open>IOption.__init__\<close>.
\<close>

definition IValue_TYPE :: "decl \<Rightarrow> error + pytype" where
  "IValue_TYPE typ =
     (case typ of
        DVal (VType t) \<Rightarrow>
          (if type_of (VType t) \<noteq> TType \<and> type_of (VType t) \<noteq> TMeta
           then Inl (InterfaceValueError ReqTypeValue) else Inr t)
      | _ \<Rightarrow> Inl (InterfaceValueError ReqTypeValue))"

definition IValue_init :: "decl \<Rightarrow> error + rule" where
  "IValue_init typ = (case IValue_TYPE typ of Inl e \<Rightarrow> Inl e | Inr t \<Rightarrow> Inr (IValue t))"

definition IList_init :: "decl list \<Rightarrow> error + rule" where
  "IList_init typ =
     (if length typ \<noteq> 1 then Inl (InterfaceValueError ReqOneArgList)
      else (case IValue_TYPE (hd typ) of Inl e \<Rightarrow> Inl e | Inr t \<Rightarrow> Inr (IList t)))"

definition IOption_init :: "pyval list \<Rightarrow> error + rule" where
  "IOption_init args =
     (if args = [] then Inl (InterfaceValueError ReqOptionArgs) else Inr (IOption args))"

text \<open>
  The three \<^verbatim>\<open>validate(self, f, input)\<close> methods. The flag \<open>isf\<close> says whether \<open>f\<close> is
  a function object, as in a method call, or the attribute name, as in
  \<^verbatim>\<open>__setattr__\<close>. \<^verbatim>\<open>_IValue.validate\<close> and \<^verbatim>\<open>IOption.validate\<close> replace a \<open>f\<close> that
  is not a function by \<^verbatim>\<open>None\<close>; \<^verbatim>\<open>IList.validate\<close> hands \<open>f\<close> to the exception as it
  is, whose constructor reads \<^verbatim>\<open>f.__bind_cls__\<close>: on an attribute name that is an
  \<^verbatim>\<open>AttributeError\<close>. The result is the exception raised, if any.
\<close>

definition IValue_validate :: "bool \<Rightarrow> pytype \<Rightarrow> pyval \<Rightarrow> error option" where
  "IValue_validate isf T input =
     (if type_of input \<noteq> T then Some (InterfaceValueError (ReqType T)) else None)"

fun validate_elements :: "bool \<Rightarrow> pytype \<Rightarrow> pyval list \<Rightarrow> error option" where
  "validate_elements isf T [] = None"
| "validate_elements isf T (el # els) =
     (case IValue_validate isf T el of
        Some e \<Rightarrow> Some e
      | None \<Rightarrow> validate_elements isf T els)"

definition IList_validate :: "bool \<Rightarrow> pytype \<Rightarrow> pyval \<Rightarrow> error option" where
  "IList_validate isf T input =
     (if type_of input \<noteq> TList
      then Some (if isf then InterfaceValueError ReqListType else AttributeError)
      else (case input of VList els \<Rightarrow> validate_elements isf T els | _ \<Rightarrow> None))"

definition IOption_validate :: "bool \<Rightarrow> pyval list \<Rightarrow> pyval \<Rightarrow> error option" where
  "IOption_validate isf OPTIONS input =
     (if \<not> py_in input OPTIONS then Some (InterfaceValueError (ReqOneOf OPTIONS)) else None)"

fun validate :: "bool \<Rightarrow> rule \<Rightarrow> pyval \<Rightarrow> error option" where
  "validate isf (IValue T) input = IValue_validate isf T input"
| "validate isf (IList T) input = IList_validate isf T input"
| "validate isf (IOption OPTIONS) input = IOption_validate isf OPTIONS input"

section \<open>Method rules and function objects\<close>

text \<open>\<^verbatim>\<open>_IFunction\<close>: the input rules in declaration order and the output rule.\<close>

record ifunction =
  IN :: "(string \<times> rule) list"
  OUT :: rule

text \<open>
  A function object: what \<^verbatim>\<open>inspect.getargspec\<close> reports (\<open>f_args\<close>, receiver
  included, and \<open>f_defaults\<close>, \<open>None\<close> when no parameter has a default), the attributes
  the engine attaches (\<^verbatim>\<open>__returns__\<close>, \<^verbatim>\<open>__rule__\<close>, \<^verbatim>\<open>__bind_cls__\<close>), and the body:
  called with the positional arguments and the keyword arguments in a state \<open>'s\<close>, it
  returns a value or raises, and leaves a state.
\<close>

record 's func =
  f_args :: "string list"
  f_defaults :: "decl list option"
  f_returns :: "rule option"
  f_rule :: "ifunction option"
  f_bind_cls :: "string option"
  f_body :: "pyval list \<Rightarrow> (string \<times> pyval) list \<Rightarrow> 's \<Rightarrow> (error + pyval) \<times> 's"

text \<open>\<^verbatim>\<open>type(v) == type\<close> on a declared value.\<close>

fun is_type :: "decl \<Rightarrow> bool" where
  "is_type (DVal v) = (type_of v = TType)"
| "is_type (DRule r) = False"

text \<open>\<^verbatim>\<open>type(v) == ls or type(v) == opt\<close>.\<close>

fun is_ls_or_opt :: "decl \<Rightarrow> bool" where
  "is_ls_or_opt (DRule (IList T)) = True"
| "is_ls_or_opt (DRule (IOption os)) = True"
| "is_ls_or_opt d = False"

text \<open>
  \<^verbatim>\<open>_IFunction._get_args\<close>: the parameter names without the receiver, zipped with
  the defaults from the front; \<^verbatim>\<open>zip\<close> with \<^verbatim>\<open>None\<close> is a \<^verbatim>\<open>TypeError\<close>.
\<close>

definition get_args :: "'s func \<Rightarrow> error + (string \<times> decl) list" where
  "get_args f =
     (let arg_names = drop 1 (f_args f); arg_values = f_defaults f in
      if arg_names \<noteq> [] then
        (case arg_values of None \<Rightarrow> Inl TypeError | Some vs \<Rightarrow> Inr (zip arg_names vs))
      else Inr [])"

text \<open>The loop of \<^verbatim>\<open>_IFunction.__init__\<close> over \<^verbatim>\<open>self.IN\<close>.\<close>

fun convert_IN :: "(string \<times> decl) list \<Rightarrow> error + (string \<times> rule) list" where
  "convert_IN [] = Inr []"
| "convert_IN ((arg, v) # rest) =
     (if is_type v then
        (case IValue_init v of
           Inl e \<Rightarrow> Inl e
         | Inr r \<Rightarrow> (case convert_IN rest of Inl e \<Rightarrow> Inl e | Inr rs \<Rightarrow> Inr ((arg, r) # rs)))
      else if \<not> is_ls_or_opt v then Inl InterfaceError
      else (case v of
              DRule r \<Rightarrow>
                (case convert_IN rest of Inl e \<Rightarrow> Inl e | Inr rs \<Rightarrow> Inr ((arg, r) # rs))
            | DVal x \<Rightarrow> Inl InterfaceError))"

definition IFunction_init :: "'s func \<Rightarrow> error + ifunction" where
  "IFunction_init obj =
     (case get_args obj of
        Inl e \<Rightarrow> Inl e
      | Inr avs \<Rightarrow>
          (case convert_IN avs of
             Inl e \<Rightarrow> Inl e
           | Inr rs \<Rightarrow>
               Inr \<lparr>IN = rs,
                    OUT = (case f_returns obj of Some r \<Rightarrow> r | None \<Rightarrow> IValue TNoneType)\<rparr>))"

text \<open>The decorator \<^verbatim>\<open>returns(rtype)\<close> applied to \<open>f\<close>.\<close>

definition returns :: "decl \<Rightarrow> 's func \<Rightarrow> error + 's func" where
  "returns rtype f =
     (if is_type rtype then
        (case IValue_init rtype of
           Inl e \<Rightarrow> Inl e
         | Inr r \<Rightarrow> Inr (f\<lparr>f_returns := Some r\<rparr>))
      else if is_ls_or_opt rtype then
        (case rtype of DRule r \<Rightarrow> Inr (f\<lparr>f_returns := Some r\<rparr>)
                     | DVal x \<Rightarrow> Inl (InterfaceOutputValueError ReqReturnDef))
      else Inl (InterfaceOutputValueError ReqReturnDef))"

section \<open>The call wrapper\<close>

text \<open>
  The loop of \<^verbatim>\<open>new_f\<close> over \<^verbatim>\<open>zip(rules, args[1:])\<close>: the first rule that rejects
  its argument ends the call with \<^verbatim>\<open>InterfaceInputValueError\<close>; any other exception of
  \<^verbatim>\<open>validate\<close> passes through.
\<close>

fun check_inputs :: "rule list \<Rightarrow> pyval list \<Rightarrow> error option" where
  "check_inputs (rule # rules) (input # inputs) =
     (case validate True rule input of
        Some e \<Rightarrow>
          (if is_InterfaceValueError e then Some (InterfaceInputValueError ReqInputError)
           else Some e)
      | None \<Rightarrow> check_inputs rules inputs)"
| "check_inputs rules inputs = None"

text \<open>
  \<^verbatim>\<open>new_f(*args, **kwrd)\<close>, the wrapper \<^verbatim>\<open>_check_method_IO(f)\<close> returns. It reads
  \<^verbatim>\<open>f.__rule__\<close> (an \<^verbatim>\<open>AttributeError\<close> when the attribute is not there), checks the
  positional arguments after the receiver, calls \<open>f\<close> with all arguments, and checks
  the result.
\<close>

definition new_f ::
  "'s func \<Rightarrow> pyval list \<Rightarrow> (string \<times> pyval) list \<Rightarrow> 's \<Rightarrow> (error + pyval) \<times> 's" where
  "new_f f args kwrd s =
     (case f_rule f of
        None \<Rightarrow> (Inl AttributeError, s)
      | Some frule \<Rightarrow>
          (case check_inputs (map snd (IN frule)) (drop 1 args) of
             Some e \<Rightarrow> (Inl e, s)
           | None \<Rightarrow>
               (case f_body f args kwrd s of
                  (Inl e, s') \<Rightarrow> (Inl e, s')
                | (Inr result, s') \<Rightarrow>
                    (case validate True (OUT frule) result of
                       Some e \<Rightarrow>
                         (if is_InterfaceValueError e
                          then (Inl (InterfaceOutputValueError ReqOutputError), s')
                          else (Inl e, s'))
                     | None \<Rightarrow> (Inr result, s')))))"

section \<open>Rule sets and the registry\<close>

text \<open>
  \<^verbatim>\<open>_IRule\<close>: the method rules \<^verbatim>\<open>m\<close> and the property rules \<^verbatim>\<open>p\<close> of one interface.
  \<^verbatim>\<open>m\<close> is iterated (\<^verbatim>\<open>m.keys()\<close>), so it is an association list with distinct keys
  whose order is the iteration order; the theorems hold for every order. \<^verbatim>\<open>p\<close> is only
  looked up. A property rule is a rule object or any other value, which is then the
  fixed, read-only value of the property.
\<close>

record irule =
  r_m :: "(string \<times> ifunction) list"
  r_p :: "string \<rightharpoonup> decl"

text \<open>
  The two class attributes of the metaclass: \<^verbatim>\<open>_Interface.rules\<close>, from interface
  name to rule set, and \<^verbatim>\<open>_Interface.inst_cls\<close>, from the name of a concrete class to
  the rule set object of its interface. An entry of \<^verbatim>\<open>rules\<close> is never replaced or
  deleted once made, so the object \<^verbatim>\<open>inst_cls\<close> refers to is named by its key in
  \<^verbatim>\<open>rules\<close>.
\<close>

record istate =
  rules :: "string \<rightharpoonup> irule"
  inst_cls :: "string \<rightharpoonup> string"

definition bound_rules :: "istate \<Rightarrow> string \<Rightarrow> irule option" where
  "bound_rules st cls_name =
     (case inst_cls st cls_name of None \<Rightarrow> None | Some i \<Rightarrow> rules st i)"

text \<open>
  A class body (\<^verbatim>\<open>namespace\<close>) binds names to functions or to other values; its items
  come in the dictionary's iteration order, keys distinct. A class object has a name,
  the names of its bases and its attributes; an attribute is a plain function, a
  function wrapped by \<^verbatim>\<open>_check_method_IO\<close>, or a value.
\<close>

datatype 's entry = EFunc "'s func" | EDecl decl

datatype 's attr = AFunc "'s func" | AChecked "'s func" | AVal decl

record 's pyclass =
  c_name :: string
  c_bases :: "string list"
  c_attrs :: "string \<rightharpoonup> 's attr"

fun entry_attr :: "'s entry \<Rightarrow> 's attr" where
  "entry_attr (EFunc f) = AFunc f"
| "entry_attr (EDecl d) = AVal d"

text \<open>The class \<^verbatim>\<open>type.__new__\<close> builds from a class statement.\<close>

definition type_new :: "string \<Rightarrow> string list \<Rightarrow> (string \<times> 's entry) list \<Rightarrow> 's pyclass" where
  "type_new name bases namespace =
     \<lparr>c_name = name, c_bases = bases, c_attrs = map_of (map (\<lambda>(k, v). (k, entry_attr v)) namespace)\<rparr>"

definition startswith :: "string \<Rightarrow> string \<Rightarrow> bool" where
  "startswith s pre = (take (length pre) s = pre)"

definition has_key :: "('k \<times> 'v) list \<Rightarrow> 'k \<Rightarrow> bool" where
  "has_key d k = (k \<in> set (map fst d))"

text \<open>\<^verbatim>\<open>delattr(cls, k)\<close> on the attributes of a class.\<close>

definition delattr :: "(string \<rightharpoonup> 'a) \<Rightarrow> string \<Rightarrow> (string \<rightharpoonup> 'a)" where
  "delattr attrs k = attrs(k := None)"

text \<open>\<^verbatim>\<open>_IValue(v) if type(v) == type else v\<close>, the rule stored for a property.\<close>

definition property_rule :: "decl \<Rightarrow> error + decl" where
  "property_rule v =
     (if is_type v then (case IValue_init v of Inl e \<Rightarrow> Inl e | Inr ru \<Rightarrow> Inr (DRule ru))
      else Inr v)"

text \<open>
  The loop of \<^verbatim>\<open>_establish_rules\<close> over \<^verbatim>\<open>namespace.items()\<close>, on the rule set stored
  under the class's name and on the attributes of the class (\<^verbatim>\<open>delattr(cls, k)\<close>). An
  exception leaves what the loop has stored so far.
\<close>

fun establish_items ::
  "irule \<Rightarrow> (string \<rightharpoonup> 's attr) \<Rightarrow> (string \<times> 's entry) list
     \<Rightarrow> error option \<times> irule \<times> (string \<rightharpoonup> 's attr)" where
  "establish_items r attrs [] = (None, r, attrs)"
| "establish_items r attrs ((k, v) # items) =
     (if has_key (r_m r) k then establish_items r attrs items
      else (case v of
          EFunc f \<Rightarrow>
            (case IFunction_init f of
               Inl e \<Rightarrow> (Some e, r, attrs)
             | Inr fr \<Rightarrow> establish_items (r\<lparr>r_m := r_m r @ [(k, fr)]\<rparr>) attrs items)
        | EDecl d \<Rightarrow>
            (if \<not> startswith k ''__'' then
               (case property_rule d of
                  Inl e \<Rightarrow> (Some e, r, attrs)
                | Inr pr \<Rightarrow>
                    establish_items (r\<lparr>r_p := (r_p r)(k \<mapsto> pr)\<rparr>) (delattr attrs k) items)
             else establish_items r attrs items)))"

definition establish_rules ::
  "istate \<Rightarrow> 's pyclass \<Rightarrow> (string \<times> 's entry) list \<Rightarrow> error option \<times> istate \<times> 's pyclass" where
  "establish_rules st cls namespace =
     (let st1 = (if rules st (c_name cls) = None
                 then st\<lparr>rules := (rules st)(c_name cls \<mapsto> \<lparr>r_m = [], r_p = Map.empty\<rparr>)\<rparr>
                 else st)
      in case rules st1 (c_name cls) of
           None \<Rightarrow> (Some KeyError, st1, cls)
         | Some r \<Rightarrow>
             (case establish_items r (c_attrs cls) namespace of
                (e, r', attrs') \<Rightarrow>
                  (e, st1\<lparr>rules := (rules st1)(c_name cls \<mapsto> r')\<rparr>, cls\<lparr>c_attrs := attrs'\<rparr>)))"

text \<open>
  The constructor \<^verbatim>\<open>def __init__(obj): pass\<close> that \<^verbatim>\<open>_apply_rules_to_method\<close>
  defines: called with the instance alone it does nothing.
\<close>

definition default_init :: "'s func" where
  "default_init =
     \<lparr>f_args = [''obj''], f_defaults = None, f_returns = None, f_rule = None,
      f_bind_cls = None,
      f_body = (\<lambda>args kwrd s.
        if length args = 1 \<and> kwrd = [] then (Inr VNone, s) else (Inl TypeError, s))\<rparr>"

text \<open>
  The loop of \<^verbatim>\<open>_apply_rules_to_method\<close> over the keys of the bound method rules
  \<open>ms\<close>: a required name missing from the class body is an error, an entry that is
  not a function is passed over, a function whose parameter names after the receiver
  differ from the rule's is an error, and any other function gets its rule and the
  class name attached and is replaced on the class by its wrapper.
\<close>

fun apply_methods ::
  "string \<Rightarrow> (string \<times> ifunction) list \<Rightarrow> string list \<Rightarrow> (string \<times> 's entry) list
     \<Rightarrow> (string \<rightharpoonup> 's attr) \<Rightarrow> error option \<times> (string \<rightharpoonup> 's attr)" where
  "apply_methods cname ms [] namespace attrs = (None, attrs)"
| "apply_methods cname ms (k # ks) namespace attrs =
     (case map_of namespace k of
        None \<Rightarrow> (Some (InterfaceValueError (ReqMissing k)), attrs)
      | Some (EDecl d) \<Rightarrow> apply_methods cname ms ks namespace attrs
      | Some (EFunc f) \<Rightarrow>
          (case map_of ms k of
             None \<Rightarrow> (Some KeyError, attrs)
           | Some fr \<Rightarrow>
               (let current_IN = drop 1 (f_args f);
                    valid_IN = map fst (IN fr)
                in if valid_IN \<noteq> current_IN
                   then (Some (InterfaceValueError (ReqValidArgs k valid_IN)), attrs)
                   else apply_methods cname ms ks namespace
                          (attrs(k \<mapsto> AChecked (f\<lparr>f_rule := Some fr, f_bind_cls := Some cname\<rparr>))))))"

text \<open>
  The first statements of \<^verbatim>\<open>_apply_rules_to_method\<close>: \<^verbatim>\<open>base, = cls.__bases__\<close> is
  a \<^verbatim>\<open>ValueError\<close> unless there is one base; a class name not yet in \<^verbatim>\<open>inst_cls\<close> is
  bound to the rule set of the base, a \<^verbatim>\<open>KeyError\<close> when the base is no registered
  interface; a class name already there keeps its binding.
\<close>

definition bind_rules :: "istate \<Rightarrow> 's pyclass \<Rightarrow> error + istate" where
  "bind_rules st cls =
     (case c_bases cls of
        [base] \<Rightarrow>
          (if inst_cls st (c_name cls) = None
           then (case rules st base of
                   None \<Rightarrow> Inl KeyError
                 | Some r \<Rightarrow> Inr (st\<lparr>inst_cls := (inst_cls st)(c_name cls \<mapsto> base)\<rparr>))
           else Inr st)
      | _ \<Rightarrow> Inl ValueError)"

text \<open>
  \<^verbatim>\<open>_apply_rules_to_method\<close>: the binding, the default constructor, the loop over
  the method rules.
\<close>

definition apply_rules_to_method ::
  "istate \<Rightarrow> 's pyclass \<Rightarrow> (string \<times> 's entry) list \<Rightarrow> error option \<times> istate \<times> 's pyclass" where
  "apply_rules_to_method st cls namespace =
     (case bind_rules st cls of
        Inl e \<Rightarrow> (Some e, st, cls)
      | Inr st1 \<Rightarrow>
          (case bound_rules st1 (c_name cls) of
             None \<Rightarrow> (Some KeyError, st1, cls)
           | Some r \<Rightarrow>
               (let attrs1 = (if \<not> has_key (r_m r) ''__init__''
                              then (c_attrs cls)(''__init__'' \<mapsto> AFunc default_init)
                              else c_attrs cls)
                in case apply_methods (c_name cls) (r_m r) (map fst (r_m r)) namespace attrs1 of
                     (e, attrs2) \<Rightarrow> (e, st1, cls\<lparr>c_attrs := attrs2\<rparr>))))"

text \<open>\<^verbatim>\<open>_Interface.__new__(mcls, name, bases, namespace)\<close>; bases are given by name.\<close>

definition Interface_new ::
  "istate \<Rightarrow> string \<Rightarrow> string list \<Rightarrow> (string \<times> 's entry) list
     \<Rightarrow> error option \<times> istate \<times> 's pyclass" where
  "Interface_new st name bases namespace =
     (let cls = type_new name bases namespace in
      if c_name cls = ''BaseInterface'' then (None, st, cls)
      else if filter (\<lambda>c. c = ''BaseInterface'') (c_bases cls) \<noteq> []
           then establish_rules st cls namespace
           else apply_rules_to_method st cls namespace)"

text \<open>Calling a class attribute.\<close>

fun call_attr ::
  "'s attr \<Rightarrow> pyval list \<Rightarrow> (string \<times> pyval) list \<Rightarrow> 's \<Rightarrow> (error + pyval) \<times> 's" where
  "call_attr (AFunc f) args kwrd s = f_body f args kwrd s"
| "call_attr (AChecked f) args kwrd s = new_f f args kwrd s"
| "call_attr (AVal d) args kwrd s = (Inl TypeError, s)"

section \<open>Attribute access on instances\<close>

text \<open>
  \<^verbatim>\<open>self.TYPE()\<close>, the call of a type object without arguments: the built-in value
  types give their empty value, \<^verbatim>\<open>NoneType\<close>, \<^verbatim>\<open>type\<close> and the metaclass cannot be
  called so, and for a class defined by the program the parameter \<open>ctor\<close> says what
  its constructor gives.
\<close>

fun type_call :: "(pytype \<Rightarrow> error + pyval) \<Rightarrow> pytype \<Rightarrow> error + pyval" where
  "type_call ctor TInt = Inr (VInt 0)"
| "type_call ctor TStr = Inr (VStr [])"
| "type_call ctor TBool = Inr (VBool False)"
| "type_call ctor TList = Inr (VList [])"
| "type_call ctor TNoneType = Inl TypeError"
| "type_call ctor TType = Inl TypeError"
| "type_call ctor TMeta = Inl TypeError"
| "type_call ctor (TClass c) = ctor (TClass c)"
| "type_call ctor (TIClass c) = ctor (TIClass c)"

text \<open>
  \<^verbatim>\<open>BaseInterface.__setattr__(self, name, value)\<close> on an instance of the class named
  \<open>cls_name\<close> whose \<^verbatim>\<open>__dict__\<close> is \<open>dict\<close>. \<^verbatim>\<open>type(p[name]) in [_val, ls, opt]\<close> holds
  exactly of the rule objects.
\<close>

definition BaseInterface_setattr ::
  "istate \<Rightarrow> string \<Rightarrow> (string \<rightharpoonup> pyval) \<Rightarrow> string \<Rightarrow> pyval
     \<Rightarrow> error option \<times> (string \<rightharpoonup> pyval)" where
  "BaseInterface_setattr st cls_name dict name val =
     (case bound_rules st cls_name of
        None \<Rightarrow> (Some KeyError, dict)
      | Some r \<Rightarrow>
          (case r_p r name of
             None \<Rightarrow> (None, dict(name \<mapsto> val))
           | Some (DRule ru) \<Rightarrow>
               (case validate False ru val of
                  Some e \<Rightarrow> (Some e, dict)
                | None \<Rightarrow> (None, dict(name \<mapsto> val)))
           | Some (DVal v) \<Rightarrow> (Some (InterfaceValueError (ReqReadOnly name)), dict)))"

text \<open>
  \<^verbatim>\<open>BaseInterface.__getattr__(self, name)\<close>, which Python calls when the ordinary
  lookup has found nothing.
\<close>

definition BaseInterface_getattr ::
  "(pytype \<Rightarrow> error + pyval) \<Rightarrow> istate \<Rightarrow> string \<Rightarrow> (string \<rightharpoonup> pyval) \<Rightarrow> string
     \<Rightarrow> (error + pyval) \<times> (string \<rightharpoonup> pyval)" where
  "BaseInterface_getattr ctor st cls_name dict name =
     (case dict name of
        Some v \<Rightarrow> (Inr v, dict)
      | None \<Rightarrow>
          (case bound_rules st cls_name of
             None \<Rightarrow> (Inl KeyError, dict)
           | Some r \<Rightarrow>
               (case r_p r name of
                  Some (DRule (IList T)) \<Rightarrow>
                    (Inl (InterfaceValueError (ReqNotAvailable name)), dict)
                | Some (DRule (IOption os)) \<Rightarrow>
                    (Inl (InterfaceValueError (ReqNotAvailable name)), dict)
                | Some (DRule (IValue T)) \<Rightarrow>
                    (case type_call ctor T of
                       Inl e \<Rightarrow> (Inl e, dict)
                     | Inr v \<Rightarrow> (Inr v, dict(name \<mapsto> v)))
                | Some (DVal v) \<Rightarrow> (Inr v, dict(name \<mapsto> v))
                | None \<Rightarrow> (Inl (InterfaceValueError (ReqNotAvailable name)), dict))))"

section \<open>Sequences of interface declarations\<close>


definition empty_state :: istate where
  "empty_state = \<lparr>rules = Map.empty, inst_cls = Map.empty\<rparr>"


section \<open>Defects of a class body\<close>





section \<open>The classes of the module's documentation\<close>

text \<open>
  The examples of the module docstring, with the \<^verbatim>\<open>__dict__\<close> of the instance at hand
  as the state of the method bodies.
  \<^verbatim>\<open>
  class IPort(BaseInterface):
      def set_port(self, port_id = int): pass
      @returns(int)
      def get_port(self): pass

  class MyPort(IPort):
      def set_port(self, port_id): self._port_id = port_id
      def get_port(self): return self._port_id
  \<close>
  \<^verbatim>\<open>IPort\<close> has no property rule for \<^verbatim>\<open>_port_id\<close>, so the assignment stores the
  value, and reading it before it is stored ends in \<^verbatim>\<open>__getattr__\<close> with
  \<^verbatim>\<open>InterfaceValueError\<close>. \<open>MyPort_set_port_echo\<close> is \<^verbatim>\<open>set_port\<close> with
  \<^verbatim>\<open>return port_id\<close> added.
\<close>

type_synonym pydict = "string \<rightharpoonup> pyval"

definition IPort_set_port :: "pydict func" where
  "IPort_set_port =
     \<lparr>f_args = [''self'', ''port_id''], f_defaults = Some [DVal (VType TInt)],
      f_returns = None, f_rule = None, f_bind_cls = None,
      f_body = (\<lambda>args kwrd d. (Inr VNone, d))\<rparr>"

definition IPort_get_port :: "pydict func" where
  "IPort_get_port =
     \<lparr>f_args = [''self''], f_defaults = None,
      f_returns = Some (IValue TInt), f_rule = None, f_bind_cls = None,
      f_body = (\<lambda>args kwrd d. (Inr VNone, d))\<rparr>"

definition IPort_namespace :: "(string \<times> pydict entry) list" where
  "IPort_namespace =
     [(''__module__'', EDecl (DVal (VStr ''__main__''))),
      (''set_port'', EFunc IPort_set_port),
      (''get_port'', EFunc IPort_get_port)]"

definition MyPort_set_port :: "pydict func" where
  "MyPort_set_port =
     \<lparr>f_args = [''self'', ''port_id''], f_defaults = None,
      f_returns = None, f_rule = None, f_bind_cls = None,
      f_body = (\<lambda>args kwrd d.
        case (args, kwrd) of
          ([self, port_id], []) \<Rightarrow> (Inr VNone, d(''_port_id'' \<mapsto> port_id))
        | ([self], [(k, port_id)]) \<Rightarrow>
            (if k = ''port_id'' then (Inr VNone, d(''_port_id'' \<mapsto> port_id))
             else (Inl TypeError, d))
        | _ \<Rightarrow> (Inl TypeError, d))\<rparr>"

definition MyPort_set_port_echo :: "pydict func" where
  "MyPort_set_port_echo =
     \<lparr>f_args = [''self'', ''port_id''], f_defaults = None,
      f_returns = None, f_rule = None, f_bind_cls = None,
      f_body = (\<lambda>args kwrd d.
        case (args, kwrd) of
          ([self, port_id], []) \<Rightarrow> (Inr port_id, d(''_port_id'' \<mapsto> port_id))
        | _ \<Rightarrow> (Inl TypeError, d))\<rparr>"

definition MyPort_get_port :: "pydict func" where
  "MyPort_get_port =
     \<lparr>f_args = [''self''], f_defaults = None,
      f_returns = None, f_rule = None, f_bind_cls = None,
      f_body = (\<lambda>args kwrd d.
        case (args, kwrd) of
          ([self], []) \<Rightarrow>
            (case d ''_port_id'' of
               Some v \<Rightarrow> (Inr v, d)
             | None \<Rightarrow> (Inl (InterfaceValueError (ReqNotAvailable ''_port_id'')), d))
        | _ \<Rightarrow> (Inl TypeError, d))\<rparr>"

definition MyPort_namespace :: "(string \<times> pydict entry) list" where
  "MyPort_namespace =
     [(''__module__'', EDecl (DVal (VStr ''__main__''))),
      (''set_port'', EFunc MyPort_set_port),
      (''get_port'', EFunc MyPort_get_port)]"

text \<open>The rule \<^verbatim>\<open>_IFunction\<close> compiles from \<^verbatim>\<open>IPort.set_port\<close>.\<close>

definition set_port_rule :: ifunction where
  "set_port_rule = \<lparr>IN = [(''port_id'', IValue TInt)], OUT = IValue TNoneType\<rparr>"

definition a_port :: pyval where
  "a_port = VObj (TIClass ''MyPort'') 0"

text \<open>
  \<^verbatim>\<open>
  class IPort(BaseInterface):
      default = int
      name = str

  class YourPort(IPort):
      def __init__(self): self.name = 'NOT_SET'
  \<close>
  The assignment in the constructor passes the rule of \<^verbatim>\<open>name\<close> and stores the
  string.
\<close>

definition IPort_properties :: "(string \<times> pydict entry) list" where
  "IPort_properties =
     [(''__module__'', EDecl (DVal (VStr ''__main__''))),
      (''default'', EDecl (DVal (VType TInt))),
      (''name'', EDecl (DVal (VType TStr)))]"

definition YourPort_init :: "pydict func" where
  "YourPort_init =
     \<lparr>f_args = [''self''], f_defaults = None,
      f_returns = None, f_rule = None, f_bind_cls = None,
      f_body = (\<lambda>args kwrd d.
        case (args, kwrd) of
          ([self], []) \<Rightarrow> (Inr VNone, d(''name'' \<mapsto> VStr ''NOT_SET''))
        | _ \<Rightarrow> (Inl TypeError, d))\<rparr>"

definition YourPort_namespace :: "(string \<times> pydict entry) list" where
  "YourPort_namespace =
     [(''__module__'', EDecl (DVal (VStr ''__main__''))),
      (''__init__'', EFunc YourPort_init)]"

definition no_ctor :: "pytype \<Rightarrow> error + pyval" where
  "no_ctor t = Inl TypeError"

text \<open>
  An interface with one property of each kind, and a class that implements it:
  \<^verbatim>\<open>
  class IDevice(BaseInterface):
      version = 3
      default = int
      ports = IList(int)
      port_type = IOption('ftp', 'http')

  class Device(IDevice): pass
  \<close>
\<close>

definition IDevice_namespace :: "(string \<times> pydict entry) list" where
  "IDevice_namespace =
     [(''__module__'', EDecl (DVal (VStr ''__main__''))),
      (''version'', EDecl (DVal (VInt 3))),
      (''default'', EDecl (DVal (VType TInt))),
      (''ports'', EDecl (DRule (IList TInt))),
      (''port_type'', EDecl (DRule (IOption [VStr ''ftp'', VStr ''http''])))]"

definition Device_namespace :: "(string \<times> pydict entry) list" where
  "Device_namespace = [(''__module__'', EDecl (DVal (VStr ''__main__'')))]"

definition device_state :: istate where
  "device_state =
     fst (snd (Interface_new
       (fst (snd (Interface_new empty_state ''IDevice'' [''BaseInterface''] IDevice_namespace)))
       ''Device'' [''IDevice''] Device_namespace))"

definition device_rules :: irule where
  "device_rules =
     \<lparr>r_m = [],
      r_p = [''version'' \<mapsto> DVal (VInt 3), ''default'' \<mapsto> DRule (IValue TInt),
             ''ports'' \<mapsto> DRule (IList TInt),
             ''port_type'' \<mapsto> DRule (IOption [VStr ''ftp'', VStr ''http''])]\<rparr>"


definition port_state :: istate where
  "port_state =
     fst (snd (Interface_new empty_state ''IPort'' [''BaseInterface''] IPort_namespace))"

definition port_rules :: irule where
  "port_rules =
     \<lparr>r_m = [(''set_port'', set_port_rule),
             (''get_port'', \<lparr>IN = [], OUT = IValue TInt\<rparr>)],
      r_p = Map.empty\<rparr>"








text \<open>The declaration of \<^verbatim>\<open>MyPort\<close> after that of \<^verbatim>\<open>IPort\<close>.\<close>

definition MyPort_declared :: "error option \<times> istate \<times> pydict pyclass" where
  "MyPort_declared = Interface_new port_state ''MyPort'' [''IPort''] MyPort_namespace"

definition MyPort_set_port_bound :: "pydict func" where
  "MyPort_set_port_bound =
     MyPort_set_port\<lparr>f_rule := Some set_port_rule, f_bind_cls := Some ''MyPort''\<rparr>"







text \<open>
  The declaration of \<^verbatim>\<open>YourPort\<close> after that of \<^verbatim>\<open>IPort\<close> with the two properties.
\<close>

definition property_state :: istate where
  "property_state =
     fst (snd (Interface_new empty_state ''IPort'' [''BaseInterface''] IPort_properties))"

definition YourPort_declared :: "error option \<times> istate \<times> pydict pyclass" where
  "YourPort_declared = Interface_new property_state ''YourPort'' [''IPort''] YourPort_namespace"

definition your_port :: pyval where
  "your_port = VObj (TIClass ''YourPort'') 0"

section \<open>Validation of method calls\<close>

lemma port_state_rules: "rules port_state ''IPort'' = Some port_rules"
  by (simp add: port_state_def port_rules_def set_port_rule_def Interface_new_def type_new_def
      establish_rules_def empty_state_def IPort_namespace_def has_key_def startswith_def
      property_rule_def
      IFunction_init_def get_args_def IPort_set_port_def IPort_get_port_def
      IValue_init_def IValue_TYPE_def)

lemma port_state_inst: "inst_cls port_state = Map.empty"
  by (simp add: port_state_def Interface_new_def type_new_def
      establish_rules_def empty_state_def split: prod.splits)

lemma MyPort_declared_set_port:
  "fst MyPort_declared = None
   \<and> c_attrs (snd (snd MyPort_declared)) ''set_port'' = Some (AChecked MyPort_set_port_bound)"
proof -
  let ?cls = "type_new ''MyPort'' [''IPort''] MyPort_namespace :: pydict pyclass"
  let ?st1 = "port_state\<lparr>inst_cls := [''MyPort'' \<mapsto> ''IPort'']\<rparr>"
  have d: "MyPort_declared = apply_rules_to_method port_state ?cls MyPort_namespace"
    by (simp add: MyPort_declared_def Interface_new_def type_new_def)
  have h1: "bind_rules port_state ?cls = Inr ?st1"
    by (simp add: bind_rules_def type_new_def port_state_rules port_state_inst)
  have h2: "bound_rules ?st1 (c_name ?cls) = Some port_rules"
    by (simp add: bound_rules_def type_new_def port_state_rules)
  have a1: "f_args MyPort_set_port = [''self'', ''port_id'']"
    by (simp add: MyPort_set_port_def)
  have a2: "f_args MyPort_get_port = [''self'']"
    by (simp add: MyPort_get_port_def)
  show ?thesis
    unfolding d using h1 h2
    by (simp add: apply_rules_to_method_def has_key_def port_rules_def MyPort_namespace_def
        set_port_rule_def a1 a2 MyPort_set_port_bound_def type_new_def)
qed

lemma validate_elements_kind:
  "validate_elements isf T els = Some e \<Longrightarrow> e = InterfaceValueError (ReqType T)"
  by (induction els) (auto simp: IValue_validate_def split: if_splits option.splits)

lemma validate_error_kind:
  "validate True ru v = Some e \<Longrightarrow> is_InterfaceValueError e"
  by (cases ru) (auto simp: IValue_validate_def IList_validate_def IOption_validate_def
      split: if_splits pyval.splits dest: validate_elements_kind)

lemma check_inputs_reject:
  "i < length rs \<Longrightarrow> i < length inputs \<Longrightarrow> validate True (rs ! i) (inputs ! i) \<noteq> None
   \<Longrightarrow> check_inputs rs inputs = Some (InterfaceInputValueError ReqInputError)"
proof (induction rs inputs arbitrary: i rule: check_inputs.induct)
  case (1 ru rs input inputs)
  show ?case
  proof (cases "validate True ru input")
    case (Some e)
    then show ?thesis using validate_error_kind[OF Some] by simp
  next
    case None
    with 1 obtain j where "i = Suc j" by (cases i) auto
    with 1 None show ?thesis by simp
  qed
qed simp_all

lemma check_inputs_accept:
  "(\<forall>i. i < length rs \<and> i < length inputs \<longrightarrow> validate True (rs ! i) (inputs ! i) = None)
   \<Longrightarrow> check_inputs rs inputs = None"
proof (induction rs inputs rule: check_inputs.induct)
  case (1 ru rs input inputs)
  from 1(2) have h0: "validate True ru input = None" by fastforce
  have "\<forall>i. i < length rs \<and> i < length inputs \<longrightarrow> validate True (rs ! i) (inputs ! i) = None"
  proof (intro allI impI)
    fix i assume "i < length rs \<and> i < length inputs"
    then have "Suc i < length (ru # rs) \<and> Suc i < length (input # inputs)" by simp
    with 1(2) have "validate True ((ru # rs) ! Suc i) ((input # inputs) ! Suc i) = None" by blast
    then show "validate True (rs ! i) (inputs ! i) = None" by simp
  qed
  with 1(1)[OF h0] h0 show ?case by simp
qed simp_all

lemma new_f_after_inputs:
  assumes "f_rule f = Some frule"
    and "check_inputs (map snd (IN frule)) (drop 1 args) = None"
  shows "new_f f args kwrd s =
     (case f_body f args kwrd s of
        (Inl e, s') \<Rightarrow> (Inl e, s')
      | (Inr result, s') \<Rightarrow>
          (if validate True (OUT frule) result = None then (Inr result, s')
           else (Inl (InterfaceOutputValueError ReqOutputError), s')))"
  using assms
  by (auto simp: new_f_def split: prod.splits sum.splits option.splits dest: validate_error_kind)

text \<open>
  C1. A call of a contracted method in which some positional argument after the
  receiver, paired by position with the rule of its parameter, fails validation raises
  \<^verbatim>\<open>InterfaceInputValueError\<close>, and the body is not invoked: whatever the body of the
  method is, the call ends with that exception in the state it started in.
\<close>

theorem input_violation_raises_before_body:
  assumes "f_rule f = Some frule"
    and "i < length (IN frule)" and "i < length (drop 1 args)"
    and "validate True (snd (IN frule ! i)) (drop 1 args ! i) \<noteq> None"
  shows "new_f (f\<lparr>f_body := body\<rparr>) args kwrd s
           = (Inl (InterfaceInputValueError ReqInputError), s)"
proof -
  have "check_inputs (map snd (IN frule)) (drop 1 args)
          = Some (InterfaceInputValueError ReqInputError)"
    using assms(2-4) by (intro check_inputs_reject[where i=i]) simp_all
  with assms(1) show ?thesis by (simp add: new_f_def)
qed

text \<open>
  The witness: \<^verbatim>\<open>MyPort().set_port('x')\<close> against \<^verbatim>\<open>port_id = int\<close>, on the wrapper
  the declaration of \<^verbatim>\<open>MyPort\<close> has put on the class. The body alone would have stored
  the string.
\<close>

theorem input_violation_raises_before_body_witness:
  "fst MyPort_declared = None
   \<and> c_attrs (snd (snd MyPort_declared)) ''set_port'' = Some (AChecked MyPort_set_port_bound)
   \<and> f_rule MyPort_set_port_bound = Some set_port_rule
   \<and> 0 < length (IN set_port_rule) \<and> 0 < length (drop 1 [a_port, VStr ''x''])
   \<and> validate True (snd (IN set_port_rule ! 0)) (drop 1 [a_port, VStr ''x''] ! 0) \<noteq> None
   \<and> call_attr (AChecked MyPort_set_port_bound) [a_port, VStr ''x''] [] Map.empty
        = (Inl (InterfaceInputValueError ReqInputError), Map.empty)
   \<and> f_body MyPort_set_port_bound [a_port, VStr ''x''] [] Map.empty
        = (Inr VNone, [''_port_id'' \<mapsto> VStr ''x''])"
proof -
  have r: "f_rule MyPort_set_port_bound = Some set_port_rule"
    by (simp add: MyPort_set_port_bound_def)
  have h: "validate True (snd (IN set_port_rule ! 0)) (drop 1 [a_port, VStr ''x''] ! 0) \<noteq> None"
    by (simp add: set_port_rule_def IValue_validate_def)
  have "new_f (MyPort_set_port_bound\<lparr>f_body := f_body MyPort_set_port_bound\<rparr>)
          [a_port, VStr ''x''] [] Map.empty
          = (Inl (InterfaceInputValueError ReqInputError), Map.empty)"
    using r h
    by (intro input_violation_raises_before_body[where i=0 and frule=set_port_rule])
       (simp_all add: set_port_rule_def)
  then have c: "call_attr (AChecked MyPort_set_port_bound) [a_port, VStr ''x''] [] Map.empty
        = (Inl (InterfaceInputValueError ReqInputError), Map.empty)"
    by simp
  have b: "f_body MyPort_set_port_bound [a_port, VStr ''x''] [] Map.empty
        = (Inr VNone, [''_port_id'' \<mapsto> VStr ''x''])"
    by (simp add: MyPort_set_port_bound_def MyPort_set_port_def)
  from MyPort_declared_set_port r h c b show ?thesis
    by (simp add: set_port_rule_def)
qed

lemma inputs_pass:
  assumes "\<forall>i. i < length (IN frule) \<and> i < length (drop 1 args)
              \<longrightarrow> validate True (snd (IN frule ! i)) (drop 1 args ! i) = None"
  shows "check_inputs (map snd (IN frule)) (drop 1 args) = None"
  using assms by (intro check_inputs_accept) simp

lemma IFunction_init_OUT:
  "IFunction_init fi = Inr frule \<Longrightarrow>
     OUT frule = (case f_returns fi of Some r \<Rightarrow> r | None \<Rightarrow> IValue TNoneType)"
  by (auto simp: IFunction_init_def split: sum.splits)

text \<open>
  C2. When every positional argument that is paired with a rule passes, the body is
  invoked, and the call ends in the state the body left. The output rule is the one
  the \<^verbatim>\<open>@returns\<close> decoration attached to the interface's function, or
  \<^verbatim>\<open>_IValue(type(None))\<close> without a decoration; a returned value that fails it raises
  \<^verbatim>\<open>InterfaceOutputValueError\<close> after the body has run, and nothing is rolled back.
\<close>

theorem output_violation_raises_after_body:
  assumes "IFunction_init fi = Inr frule" and "f_rule f = Some frule"
    and "\<forall>i. i < length (IN frule) \<and> i < length (drop 1 args)
              \<longrightarrow> validate True (snd (IN frule ! i)) (drop 1 args ! i) = None"
    and "f_body f args kwrd s = (Inr result, s')"
  shows "new_f f args kwrd s =
           (if validate True (case f_returns fi of Some r \<Rightarrow> r | None \<Rightarrow> IValue TNoneType) result = None
            then (Inr result, s')
            else (Inl (InterfaceOutputValueError ReqOutputError), s'))"
  using new_f_after_inputs[OF assms(2) inputs_pass[OF assms(3)], of kwrd s]
    IFunction_init_OUT[OF assms(1)] assms(4)
  by simp

text \<open>
  The witness: \<^verbatim>\<open>set_port(5)\<close> on a body that stores the port and returns it, against
  an interface method without \<^verbatim>\<open>@returns\<close>.
\<close>

theorem output_violation_raises_after_body_witness:
  "IFunction_init IPort_set_port = Inr set_port_rule
   \<and> f_rule (MyPort_set_port_echo\<lparr>f_rule := Some set_port_rule\<rparr>) = Some set_port_rule
   \<and> length (IN set_port_rule) = 1
   \<and> validate True (snd (IN set_port_rule ! 0)) (drop 1 [a_port, VInt 5] ! 0) = None
   \<and> f_body (MyPort_set_port_echo\<lparr>f_rule := Some set_port_rule\<rparr>) [a_port, VInt 5] [] Map.empty
        = (Inr (VInt 5), [''_port_id'' \<mapsto> VInt 5])
   \<and> f_returns IPort_set_port = None
   \<and> validate True (IValue TNoneType) (VInt 5) \<noteq> None
   \<and> new_f (MyPort_set_port_echo\<lparr>f_rule := Some set_port_rule\<rparr>) [a_port, VInt 5] [] Map.empty
        = (Inl (InterfaceOutputValueError ReqOutputError), [''_port_id'' \<mapsto> VInt 5])"
proof -
  have h1: "IFunction_init IPort_set_port = Inr set_port_rule"
    by (simp add: IFunction_init_def get_args_def IPort_set_port_def set_port_rule_def
        IValue_init_def IValue_TYPE_def)
  have h2: "f_rule (MyPort_set_port_echo\<lparr>f_rule := Some set_port_rule\<rparr>) = Some set_port_rule"
    by simp
  have h3: "\<forall>i. i < length (IN set_port_rule) \<and> i < length (drop 1 [a_port, VInt 5])
          \<longrightarrow> validate True (snd (IN set_port_rule ! i)) (drop 1 [a_port, VInt 5] ! i) = None"
    by (simp add: set_port_rule_def IValue_validate_def)
  have h4: "f_body (MyPort_set_port_echo\<lparr>f_rule := Some set_port_rule\<rparr>) [a_port, VInt 5] [] Map.empty
        = (Inr (VInt 5), [''_port_id'' \<mapsto> VInt 5])"
    by (simp add: MyPort_set_port_echo_def)
  have h5: "f_returns IPort_set_port = None" by (simp add: IPort_set_port_def)
  have h6: "validate True (IValue TNoneType) (VInt 5) \<noteq> None" by (simp add: IValue_validate_def)
  from output_violation_raises_after_body[OF h1 h2 h3 h4] h5 h6
  have "new_f (MyPort_set_port_echo\<lparr>f_rule := Some set_port_rule\<rparr>) [a_port, VInt 5] [] Map.empty
        = (Inl (InterfaceOutputValueError ReqOutputError), [''_port_id'' \<mapsto> VInt 5])"
    by simp
  moreover have "length (IN set_port_rule) = 1"
    and "validate True (snd (IN set_port_rule ! 0)) (drop 1 [a_port, VInt 5] ! 0) = None"
    by (simp_all add: set_port_rule_def IValue_validate_def)
  ultimately show ?thesis using h1 h2 h4 h5 h6 by blast
qed

text \<open>
  C10. Only the positional arguments are validated: when those that are paired with
  a rule pass, the body is called with the positional and the keyword arguments as
  they came, whatever the keyword arguments are, and the outcome of the call is the
  body's outcome checked against the output rule.
\<close>

theorem keyword_arguments_forwarded_unchecked:
  assumes "f_rule f = Some frule"
    and "\<forall>i. i < length (IN frule) \<and> i < length (drop 1 args)
              \<longrightarrow> validate True (snd (IN frule ! i)) (drop 1 args ! i) = None"
  shows "new_f f args kwrd s =
     (case f_body f args kwrd s of
        (Inl e, s') \<Rightarrow> (Inl e, s')
      | (Inr result, s') \<Rightarrow>
          (if validate True (OUT frule) result = None then (Inr result, s')
           else (Inl (InterfaceOutputValueError ReqOutputError), s')))"
proof -
  have "check_inputs (map snd (IN frule)) (drop 1 args) = None"
    using assms(2) by (rule inputs_pass)
  with assms(1) show ?thesis
    by (rule new_f_after_inputs)
qed

text \<open>
  The witness: \<^verbatim>\<open>set_port(port_id = 'x')\<close> against \<^verbatim>\<open>port_id = int\<close> stores the string.
\<close>

theorem keyword_arguments_forwarded_unchecked_witness:
  "f_rule (MyPort_set_port\<lparr>f_rule := Some set_port_rule\<rparr>) = Some set_port_rule
   \<and> drop 1 [a_port] = []
   \<and> IN set_port_rule = [(''port_id'', IValue TInt)]
   \<and> validate True (IValue TInt) (VStr ''x'') \<noteq> None
   \<and> new_f (MyPort_set_port\<lparr>f_rule := Some set_port_rule\<rparr>) [a_port] [(''port_id'', VStr ''x'')] Map.empty
        = (Inr VNone, [''_port_id'' \<mapsto> VStr ''x''])"
proof -
  have h1: "f_rule (MyPort_set_port\<lparr>f_rule := Some set_port_rule\<rparr>) = Some set_port_rule"
    by simp
  have h2: "\<forall>i. i < length (IN set_port_rule) \<and> i < length (drop 1 [a_port])
          \<longrightarrow> validate True (snd (IN set_port_rule ! i)) (drop 1 [a_port] ! i) = None"
    by simp
  have h3: "IN set_port_rule = [(''port_id'', IValue TInt)]" by (simp add: set_port_rule_def)
  have h4: "validate True (IValue TInt) (VStr ''x'') \<noteq> None" by (simp add: IValue_validate_def)
  have "new_f (MyPort_set_port\<lparr>f_rule := Some set_port_rule\<rparr>) [a_port] [(''port_id'', VStr ''x'')] Map.empty
        = (Inr VNone, [''_port_id'' \<mapsto> VStr ''x''])"
    using keyword_arguments_forwarded_unchecked[OF h1 h2, of "[(''port_id'', VStr ''x'')]" Map.empty]
    by (simp add: MyPort_set_port_def set_port_rule_def IValue_validate_def)
  with h1 h3 h4 show ?thesis by simp
qed

section \<open>Property access\<close>

lemma device_bound: "bound_rules device_state ''Device'' = Some device_rules"
  by (simp add: device_state_def device_rules_def Interface_new_def type_new_def
      establish_rules_def empty_state_def IDevice_namespace_def Device_namespace_def
      has_key_def startswith_def property_rule_def IValue_init_def IValue_TYPE_def
      apply_rules_to_method_def bind_rules_def bound_rules_def)

text \<open>
  C6. A property whose rule is a fixed value (the rule stored for it is no rule object
  but the value itself) cannot be set: every \<^verbatim>\<open>__setattr__\<close> on it, whatever the
  instance holds already and so the first one too, raises \<^verbatim>\<open>InterfaceValueError\<close> with
  the read-only message and leaves the instance's \<^verbatim>\<open>__dict__\<close> as it was.
\<close>

theorem fixed_value_set_always_raises:
  assumes "bound_rules st cls_name = Some r" and "r_p r name = Some (DVal v)"
  shows "BaseInterface_setattr st cls_name dict name val
           = (Some (InterfaceValueError (ReqReadOnly name)), dict)"
  using assms by (simp add: BaseInterface_setattr_def)

text \<open>
  The witness: \<^verbatim>\<open>Device().version = 3\<close> on a fresh instance, and \<^verbatim>\<open>version = 4\<close> on
  one that holds the value.
\<close>

theorem fixed_value_set_always_raises_witness:
  "bound_rules device_state ''Device'' = Some device_rules
   \<and> r_p device_rules ''version'' = Some (DVal (VInt 3))
   \<and> BaseInterface_setattr device_state ''Device'' Map.empty ''version'' (VInt 3)
        = (Some (InterfaceValueError (ReqReadOnly ''version'')), Map.empty)
   \<and> BaseInterface_setattr device_state ''Device'' [''version'' \<mapsto> VInt 3] ''version'' (VInt 4)
        = (Some (InterfaceValueError (ReqReadOnly ''version'')), [''version'' \<mapsto> VInt 3])"
proof -
  have h: "r_p device_rules ''version'' = Some (DVal (VInt 3))"
    by (simp add: device_rules_def)
  show ?thesis
    using device_bound h
      fixed_value_set_always_raises[OF device_bound h, of Map.empty "VInt 3"]
      fixed_value_set_always_raises[OF device_bound h, of "[''version'' \<mapsto> VInt 3]" "VInt 4"]
    by simp
qed



section \<open>Declaration of a concrete class\<close>













section \<open>The default constructor\<close>

lemma property_state_rules:
  "rules property_state ''IPort''
     = Some \<lparr>r_m = [], r_p = [''default'' \<mapsto> DRule (IValue TInt), ''name'' \<mapsto> DRule (IValue TStr)]\<rparr>"
  by (simp add: property_state_def Interface_new_def type_new_def
      establish_rules_def empty_state_def IPort_properties_def has_key_def startswith_def
      property_rule_def IValue_init_def IValue_TYPE_def)

lemma property_state_inst: "inst_cls property_state = Map.empty"
  by (simp add: property_state_def Interface_new_def type_new_def
      establish_rules_def empty_state_def split: prod.splits)

lemma apply_methods_other_attr:
  "k \<notin> set ks \<Longrightarrow> snd (apply_methods cname ms ks namespace attrs) k = attrs k"
proof (induction ks arbitrary: attrs)
  case Nil
  then show ?case by simp
next
  case (Cons k' ks)
  then show ?case
    by (auto simp: Let_def split: option.splits entry.splits)
qed

lemma default_init_installed:
  assumes "bind_rules st cls = Inr st1" and "bound_rules st1 (c_name cls) = Some r"
    and "\<not> has_key (r_m r) ''__init__''"
  shows "c_attrs (snd (snd (apply_rules_to_method st cls namespace))) ''__init__''
           = Some (AFunc default_init)"
  using assms apply_methods_other_attr[of "''__init__''" "map fst (r_m r)" "c_name cls" "r_m r"
      namespace "(c_attrs cls)(''__init__'' \<mapsto> AFunc default_init)"]
  by (auto simp: apply_rules_to_method_def has_key_def split: prod.splits)

text \<open>
  C3. The claim says that a constructor the concrete class supplies is kept. The code
  installs \<^verbatim>\<open>def __init__(obj): pass\<close> on the class whenever the rule set has no
  rule for \<^verbatim>\<open>__init__\<close>, over a constructor of the class body as well. On the
  documentation's \<^verbatim>\<open>YourPort\<close>, whose constructor sets \<^verbatim>\<open>self.name = 'NOT_SET'\<close>: the
  declaration succeeds, the class's \<^verbatim>\<open>__init__\<close> is the do-nothing constructor and not
  the one of the body, creating an instance stores nothing, and \<^verbatim>\<open>name\<close> then reads as
  the empty string where the documentation prints \<^verbatim>\<open>'NOT_SET'\<close>.
\<close>

theorem supplied_constructor_is_replaced:
  "fst YourPort_declared = None
   \<and> map_of YourPort_namespace ''__init__'' = Some (EFunc YourPort_init)
   \<and> c_attrs (snd (snd YourPort_declared)) ''__init__'' = Some (AFunc default_init)
   \<and> call_attr (AFunc default_init) [your_port] [] (Map.empty :: pydict)
        = (Inr VNone, Map.empty)
   \<and> call_attr (AFunc YourPort_init) [your_port] [] Map.empty
        = (Inr VNone, [''name'' \<mapsto> VStr ''NOT_SET''])
   \<and> BaseInterface_getattr no_ctor (fst (snd YourPort_declared)) ''YourPort'' Map.empty ''name''
        = (Inr (VStr ''''), [''name'' \<mapsto> VStr ''''])"
proof -
  let ?cls = "type_new ''YourPort'' [''IPort''] YourPort_namespace :: pydict pyclass"
  let ?st1 = "property_state\<lparr>inst_cls := [''YourPort'' \<mapsto> ''IPort'']\<rparr>"
  let ?r = "\<lparr>r_m = [], r_p = [''default'' \<mapsto> DRule (IValue TInt), ''name'' \<mapsto> DRule (IValue TStr)]\<rparr>"
  have d: "YourPort_declared = apply_rules_to_method property_state ?cls YourPort_namespace"
    by (simp add: YourPort_declared_def Interface_new_def type_new_def)
  have h1: "bind_rules property_state ?cls = Inr ?st1"
    by (simp add: bind_rules_def type_new_def property_state_rules property_state_inst)
  have h2: "bound_rules ?st1 (c_name ?cls) = Some ?r"
    by (simp add: bound_rules_def type_new_def property_state_rules)
  have res: "YourPort_declared
      = (None, ?st1, ?cls\<lparr>c_attrs := (c_attrs ?cls)(''__init__'' \<mapsto> AFunc default_init)\<rparr>)"
    unfolding d using h1 h2 by (simp add: apply_rules_to_method_def has_key_def)
  have a: "fst YourPort_declared = None" by (simp add: res)
  have b: "map_of YourPort_namespace ''__init__'' = Some (EFunc YourPort_init)"
    by (simp add: YourPort_namespace_def)
  have c: "c_attrs (snd (snd YourPort_declared)) ''__init__'' = Some (AFunc default_init)"
    by (simp add: res)
  have e: "call_attr (AFunc default_init) [your_port] [] (Map.empty :: pydict) = (Inr VNone, Map.empty)"
    by (simp add: default_init_def)
  have f: "call_attr (AFunc YourPort_init) [your_port] [] Map.empty
        = (Inr VNone, [''name'' \<mapsto> VStr ''NOT_SET''])"
    by (simp add: YourPort_init_def)
  have g: "BaseInterface_getattr no_ctor (fst (snd YourPort_declared)) ''YourPort'' Map.empty ''name''
        = (Inr (VStr ''''), [''name'' \<mapsto> VStr ''''])"
    using h2 by (simp add: res BaseInterface_getattr_def type_new_def)
  from a b c e f g show ?thesis by blast
qed

section \<open>Declaration of an interface\<close>



















section \<open>Disjoint method and property names\<close>










end
